theory Spec2Isabelle
  imports Complex_Main "HOL-Library.AList"
begin

section \<open>Requester scheduler: data model\<close>

text \<open>
  The model package is not part of the sources at hand; the types below carry the fields
  that \<^verbatim>\<open>pkg/requester/scheduler_state.go\<close> reads.
\<close>

text \<open>Modelled from the spec: \<^verbatim>\<open>model.JobStateType\<close> is declared outside the sources;
  the spec lists the coarse states New, InProgress, CompletedSuccessfully,
  CompletedPartially, Failed, Cancelled.\<close>

datatype JobStateType =
    JobStateNew
  | JobStateInProgress
  | JobStateCompletedSuccessfully
  | JobStateCompletedPartially
  | JobStateFailed
  | JobStateCancelled

text \<open>Modelled from the spec: \<^verbatim>\<open>JobStateType.IsTerminal\<close> is declared outside the
  sources; the spec names the last four states terminal.\<close>

fun IsTerminal :: "JobStateType \<Rightarrow> bool" where
  "IsTerminal JobStateNew = False"
| "IsTerminal JobStateInProgress = False"
| "IsTerminal JobStateCompletedSuccessfully = True"
| "IsTerminal JobStateCompletedPartially = True"
| "IsTerminal JobStateFailed = True"
| "IsTerminal JobStateCancelled = True"

text \<open>Modelled from the spec: \<^verbatim>\<open>model.ExecutionStateType\<close> is declared outside the
  sources; the spec lists these execution states.\<close>

datatype ExecutionStateType =
    ExecutionStateAskedToBid
  | ExecutionStateBidReceived
  | ExecutionStateBidAccepted
  | ExecutionStateBidRejected
  | ExecutionStateResultProposed
  | ExecutionStateResultAccepted
  | ExecutionStateResultRejected
  | ExecutionStateCompleted
  | ExecutionStateFailed
  | ExecutionStateCancelled

text \<open>\<^verbatim>\<open>UpdateTime\<close> is a \<^verbatim>\<open>time.Time\<close>; it is modelled as the signed distance from
  the zero time, which is what \<^verbatim>\<open>Before\<close> compares. The zero value of the struct has
  \<open>UpdateTime = 0\<close>.\<close>

record ExecutionState =
  EJobID :: string
  ExecutionID :: string
  NodeID :: string
  State :: ExecutionStateType
  Status :: string
  UpdateTime :: int

record JobState =
  JobID :: string
  JState :: JobStateType
  JStatus :: string
  Executions :: "ExecutionState list"

record Deal =
  Concurrency :: int
  Confidence :: int
  MinBids :: int

text \<open>\<^verbatim>\<open>model.Job\<close> with the fields that \<^verbatim>\<open>ConstructDockerJob\<close> writes. The enumerations
  \<^verbatim>\<open>model.Verifier\<close> and \<^verbatim>\<open>model.Network\<close> are their integer codes, a storage or publisher
  specification its name; \<^verbatim>\<open>Timeout\<close> is a \<^verbatim>\<open>float64\<close> that is only stored.\<close>

record ResourceUsageConfig =
  CPU :: string
  Memory :: string
  GPU :: string

record NetworkConfig =
  NetworkType :: nat
  Domains :: "string list"

record DockerEngineSpec =
  Image :: string
  Entrypoint :: "string list"
  EnvironmentVariables :: "string list"
  WorkingDirectory :: string

datatype EngineSpec = EngineSpec string DockerEngineSpec

record Spec =
  Engine :: EngineSpec
  Verifier :: nat
  PublisherSpec :: string
  Network :: NetworkConfig
  Timeout :: real
  Resources :: ResourceUsageConfig
  Inputs :: "string list"
  Outputs :: "string list"
  Annotations :: "string list"
  NodeSelectors :: "string list"
  JDeal :: Deal

record Job =
  ID :: string
  APIVersion :: string
  JSpec :: Spec

text \<open>Go errors are values with a message. \<^verbatim>\<open>errors.As(err, new(verifier.ErrInsufficientExecutions))\<close>
  asks whether the error is (or wraps) the verifier's signal; the constructor records that.\<close>

datatype error =
    ErrInsufficientExecutions string
  | ErrOther string

fun Error :: "error \<Rightarrow> string" where
  "Error (ErrInsufficientExecutions m) = m"
| "Error (ErrOther m) = m"

fun errors_As_ErrInsufficientExecutions :: "error option \<Rightarrow> bool" where
  "errors_As_ErrInsufficientExecutions None = False"
| "errors_As_ErrInsufficientExecutions (Some (ErrInsufficientExecutions m)) = True"
| "errors_As_ErrInsufficientExecutions (Some (ErrOther m)) = False"

section \<open>Requester scheduler: collaborators\<close>

text \<open>
  \<^verbatim>\<open>BaseScheduler\<close> holds a job store, a node selector and a retry strategy, and has the
  methods \<^verbatim>\<open>stopJob\<close>, \<^verbatim>\<open>notifyAskForBid\<close>, \<^verbatim>\<open>updateAndNotifyBidAccepted\<close>,
  \<^verbatim>\<open>updateAndNotifyBidRejected\<close> and \<^verbatim>\<open>verifyResult\<close>, none of which is defined in
  \<^verbatim>\<open>scheduler_state.go\<close>. They are fields of the record below, over a type \<open>'w\<close> of
  everything these calls can read or change (the store, the messages sent). Reads take the
  world; writes return the new one.
\<close>

record 'w BaseScheduler =
  GetJobState :: "'w \<Rightarrow> string \<Rightarrow> error + JobState"
  GetJob :: "'w \<Rightarrow> string \<Rightarrow> error + Job"
  UpdateJobState :: "string \<Rightarrow> JobStateType \<Rightarrow> 'w \<Rightarrow> error option \<times> 'w"
  SelectNodesForRetry :: "'w \<Rightarrow> Job \<Rightarrow> JobState \<Rightarrow> string list \<times> error option"
  SelectBids :: "'w \<Rightarrow> Job \<Rightarrow> JobState \<Rightarrow> ExecutionState list \<times> ExecutionState list"
  CanCompleteJob :: "'w \<Rightarrow> Job \<Rightarrow> JobState \<Rightarrow> bool \<times> JobStateType"
  ShouldRetry :: "'w \<Rightarrow> string \<Rightarrow> bool"
  stopJob :: "string \<Rightarrow> string \<Rightarrow> bool \<Rightarrow> 'w \<Rightarrow> 'w"
  notifyAskForBid :: "Job \<Rightarrow> string list \<Rightarrow> 'w \<Rightarrow> 'w"
  updateAndNotifyBidAccepted :: "ExecutionState \<Rightarrow> 'w \<Rightarrow> 'w"
  updateAndNotifyBidRejected :: "ExecutionState \<Rightarrow> 'w \<Rightarrow> 'w"
  verifyResult :: "Job \<Rightarrow> ExecutionState list \<Rightarrow> 'w
                    \<Rightarrow> (ExecutionState list \<times> ExecutionState list \<times> error option) \<times> 'w"

section \<open>Requester scheduler: \<^verbatim>\<open>scheduler_state.go\<close>\<close>

subsection \<open>checkForFailedExecutions\<close>

text \<open>
  \<^verbatim>\<open>multierr.Append\<close> collects errors and the collected error prints its members joined
  by \<^verbatim>\<open>"; "\<close>; \<open>finalErr\<close> is kept as the list of the member messages.
\<close>

fun multierr_Error :: "string list \<Rightarrow> string" where
  "multierr_Error [] = []"
| "multierr_Error [m] = m"
| "multierr_Error (m # ms) = m @ ''; '' @ multierr_Error ms"

definition node_failed_msg :: "ExecutionState \<Rightarrow> string" where
  "node_failed_msg e = ''node '' @ NodeID e @ '' failed due to: '' @ Status e"

text \<open>The loop over \<^verbatim>\<open>jobState.Executions\<close>; the loop state is
  \<open>(lastFailedExecution, finalErr, errMsg)\<close>.\<close>

fun failed_loop ::
  "ExecutionState list \<Rightarrow> ExecutionState \<times> string list \<times> string
     \<Rightarrow> ExecutionState \<times> string list \<times> string" where
  "failed_loop [] acc = acc"
| "failed_loop (execution # rest) (lastFailedExecution, finalErr, errMsg) =
     (if State execution = ExecutionStateFailed
         \<and> UpdateTime lastFailedExecution < UpdateTime execution
      then (let finalErr' = finalErr @ [node_failed_msg execution]
            in failed_loop rest (execution, finalErr', multierr_Error finalErr'))
      else failed_loop rest (lastFailedExecution, finalErr, errMsg))"

text \<open>The zero value of \<^verbatim>\<open>model.ExecutionState\<close>, the initial \<open>lastFailedExecution\<close>; the
  loop reads only its \<open>UpdateTime\<close>.\<close>

definition zero_ExecutionState :: ExecutionState where
  "zero_ExecutionState =
     \<lparr>EJobID = [], ExecutionID = [], NodeID = [], State = ExecutionStateAskedToBid, Status = [], UpdateTime = 0\<rparr>"

definition failed_errMsg :: "JobState \<Rightarrow> string" where
  "failed_errMsg jobState =
     snd (snd (failed_loop (Executions jobState) (zero_ExecutionState, [], [])))"

definition checkForFailedExecutions ::
  "'w BaseScheduler \<Rightarrow> Job \<Rightarrow> JobState \<Rightarrow> 'w \<Rightarrow> 'w" where
  "checkForFailedExecutions s job jobState w =
     (let (nodesToRetry, err) = SelectNodesForRetry s w job jobState;
          canRetry = ShouldRetry s w (ID job)
      in if err \<noteq> None \<or> (length nodesToRetry > 0 \<and> \<not> canRetry)
         then stopJob s (ID job) (failed_errMsg jobState) False w
         else if length nodesToRetry > 0
         then notifyAskForBid s job nodesToRetry w
         else w)"

subsection \<open>checkForPendingBids\<close>

definition checkForPendingBids ::
  "'w BaseScheduler \<Rightarrow> Job \<Rightarrow> JobState \<Rightarrow> 'w \<Rightarrow> 'w" where
  "checkForPendingBids s job jobState w =
     (let (acceptBids, rejectBids) = SelectBids s w job jobState;
          w1 = fold (updateAndNotifyBidAccepted s) acceptBids w
      in fold (updateAndNotifyBidRejected s) rejectBids w1)"

subsection \<open>checkForCompletedExecutions\<close>

definition checkForCompletedExecutions ::
  "'w BaseScheduler \<Rightarrow> Job \<Rightarrow> JobState \<Rightarrow> 'w \<Rightarrow> 'w" where
  "checkForCompletedExecutions s job jobState w =
     (let (shouldUpdate, newState) = CanCompleteJob s w job jobState
      in if shouldUpdate then snd (UpdateJobState s (ID job) newState w) else w)"

subsection \<open>checkForPendingResults and transitionJobStateLockFree\<close>

text \<open>
  \<^verbatim>\<open>GroupExecutionsByState\<close> is declared outside the sources; the only group read is the one
  of \<^verbatim>\<open>ExecutionStateResultProposed\<close>, the executions in that state in their order.
\<close>

definition resultProposed :: "JobState \<Rightarrow> ExecutionState list" where
  "resultProposed jobState =
     filter (\<lambda>e. State e = ExecutionStateResultProposed) (Executions jobState)"

definition failed_to_verify_msg :: "Job \<Rightarrow> error \<Rightarrow> string" where
  "failed_to_verify_msg job e = ''failed to verify job '' @ ID job @ '': '' @ Error e"

text \<open>
  \<^verbatim>\<open>checkForPendingResults\<close> calls \<^verbatim>\<open>transitionJobStateLockFree\<close> again when the verifier
  rejected a result, and nothing in the code bounds the depth of that nesting. The first
  argument is the number of nested invocations allowed; \<open>None\<close> is a run that needs more.
\<close>

fun transitionJobStateLockFree :: "nat \<Rightarrow> 'w BaseScheduler \<Rightarrow> string \<Rightarrow> 'w \<Rightarrow> 'w option"
and checkForPendingResults :: "nat \<Rightarrow> 'w BaseScheduler \<Rightarrow> Job \<Rightarrow> JobState \<Rightarrow> 'w \<Rightarrow> 'w option"
where
  "transitionJobStateLockFree 0 s jobID w = None"
| "transitionJobStateLockFree (Suc n) s jobID w =
     (case GetJobState s w jobID of
        Inl err \<Rightarrow> Some w
      | Inr jobState \<Rightarrow>
          if IsTerminal (JState jobState) then Some w
          else (case GetJob s w jobID of
                  Inl err \<Rightarrow> Some w
                | Inr job \<Rightarrow>
                    (let w1 = checkForFailedExecutions s job jobState w;
                         w2 = checkForPendingBids s job jobState w1
                     in case checkForPendingResults n s job jobState w2 of
                          None \<Rightarrow> None
                        | Some w3 \<Rightarrow> Some (checkForCompletedExecutions s job jobState w3))))"
| "checkForPendingResults n s job jobState w =
     (let awaitingVerification = length (resultProposed jobState)
      in if awaitingVerification \<ge> 1
         then (case verifyResult s job (resultProposed jobState) w of
                 ((succeeded, failed, err), w') \<Rightarrow>
                   if errors_As_ErrInsufficientExecutions err then Some w'
                   else (case err of
                           Some e \<Rightarrow> Some (stopJob s (ID job) (failed_to_verify_msg job e) False w')
                         | None \<Rightarrow>
                             if length failed > 0
                             then transitionJobStateLockFree n s (ID job) w'
                             else Some w'))
         else Some w)"

definition TransitionJobState :: "nat \<Rightarrow> 'w BaseScheduler \<Rightarrow> string \<Rightarrow> 'w \<Rightarrow> 'w option" where
  "TransitionJobState n s jobID w = transitionJobStateLockFree n s jobID w"

section \<open>The collaborators as the specification describes them\<close>

text \<open>
  A concrete world for running the scheduler: the store (jobs and job states by job
  identifier), the events published, and the calls made to the scheduler's own methods.
\<close>

datatype EventName =
    Created | AskForBid | BidReceived | BidAccepted | BidRejected | ComputeError
  | ResultProposed | ResultAccepted | ResultRejected | Published | CancelExecution | Cancelled

record Event =
  EvName :: EventName
  EvJobID :: string
  EvTargetNodeID :: string

datatype Call =
    StopJob string string bool
  | NotifyAskForBid string "string list"
  | UpdateAndNotifyBidAccepted string
  | UpdateAndNotifyBidRejected string
  | VerifyResult string "string list"

record World =
  jobs :: "(string \<times> Job) list"
  jobStates :: "(string \<times> JobState) list"
  outbox :: "Event list"
  calls :: "Call list"

text \<open>Modelled from the spec: the job store is not in the sources. \<^verbatim>\<open>GetJob\<close> and
  \<^verbatim>\<open>GetJobState\<close> are read-only and fail with NotFound; every update to a terminal
  JobState is rejected with JobTerminated.\<close>

definition store_GetJobState :: "World \<Rightarrow> string \<Rightarrow> error + JobState" where
  "store_GetJobState w jobID =
     (case map_of (jobStates w) jobID of
        None \<Rightarrow> Inl (ErrOther ''NotFound'')
      | Some js \<Rightarrow> Inr js)"

definition store_GetJob :: "World \<Rightarrow> string \<Rightarrow> error + Job" where
  "store_GetJob w jobID =
     (case map_of (jobs w) jobID of
        None \<Rightarrow> Inl (ErrOther ''NotFound'')
      | Some j \<Rightarrow> Inr j)"

definition store_modify ::
  "string \<Rightarrow> (JobState \<Rightarrow> JobState) \<Rightarrow> World \<Rightarrow> error option \<times> World" where
  "store_modify jobID f w =
     (case map_of (jobStates w) jobID of
        None \<Rightarrow> (Some (ErrOther ''NotFound''), w)
      | Some js \<Rightarrow>
          if IsTerminal (JState js) then (Some (ErrOther ''JobTerminated''), w)
          else (None, w\<lparr>jobStates := AList.update jobID (f js) (jobStates w)\<rparr>))"

definition store_UpdateJobState ::
  "string \<Rightarrow> JobStateType \<Rightarrow> World \<Rightarrow> error option \<times> World" where
  "store_UpdateJobState jobID newState w = store_modify jobID (\<lambda>js. js\<lparr>JState := newState\<rparr>) w"

definition set_execution ::
  "string \<Rightarrow> ExecutionStateType \<Rightarrow> string \<Rightarrow> ExecutionState \<Rightarrow> ExecutionState" where
  "set_execution execID newState status e =
     (if ExecutionID e = execID then e\<lparr>State := newState, Status := status\<rparr> else e)"

definition store_UpdateExecution ::
  "string \<Rightarrow> string \<Rightarrow> ExecutionStateType \<Rightarrow> string \<Rightarrow> World \<Rightarrow> error option \<times> World" where
  "store_UpdateExecution jobID execID newState status w =
     store_modify jobID
       (\<lambda>js. js\<lparr>Executions := map (set_execution execID newState status) (Executions js)\<rparr>) w"

definition store_CreateExecution ::
  "string \<Rightarrow> ExecutionState \<Rightarrow> World \<Rightarrow> error option \<times> World" where
  "store_CreateExecution jobID e w =
     store_modify jobID (\<lambda>js. js\<lparr>Executions := Executions js @ [e]\<rparr>) w"

definition publish :: "EventName \<Rightarrow> string \<Rightarrow> string \<Rightarrow> World \<Rightarrow> World" where
  "publish name jobID node w =
     w\<lparr>outbox := outbox w @ [\<lparr>EvName = name, EvJobID = jobID, EvTargetNodeID = node\<rparr>]\<rparr>"

definition record_call :: "Call \<Rightarrow> World \<Rightarrow> World" where
  "record_call c w = w\<lparr>calls := calls w @ [c]\<rparr>"

text \<open>Modelled from the spec: which execution states end an attempt is declared outside
  the sources; a rejected bid, a rejected result, Completed, Failed and Cancelled do.\<close>

fun exec_IsTerminal :: "ExecutionStateType \<Rightarrow> bool" where
  "exec_IsTerminal ExecutionStateBidRejected = True"
| "exec_IsTerminal ExecutionStateResultRejected = True"
| "exec_IsTerminal ExecutionStateCompleted = True"
| "exec_IsTerminal ExecutionStateFailed = True"
| "exec_IsTerminal ExecutionStateCancelled = True"
| "exec_IsTerminal _ = False"

text \<open>Modelled from the spec: \<^verbatim>\<open>stopJob\<close> is not in the sources. It updates the JobState
  to Failed with the message as status and publishes CancelExecution to the node of every
  non-terminal execution. The spec gives \<open>permanent\<close> no effect of its own; the call is
  recorded with it.\<close>

definition spec_stopJob :: "string \<Rightarrow> string \<Rightarrow> bool \<Rightarrow> World \<Rightarrow> World" where
  "spec_stopJob jobID message permanent w =
     (let w0 = record_call (StopJob jobID message permanent) w
      in case store_modify jobID (\<lambda>js. js\<lparr>JState := JobStateFailed, JStatus := message\<rparr>) w0 of
           (Some err, w1) \<Rightarrow> w1
         | (None, w1) \<Rightarrow>
             (case map_of (jobStates w0) jobID of
                None \<Rightarrow> w1
              | Some js \<Rightarrow>
                  fold (\<lambda>e. publish CancelExecution jobID (NodeID e))
                    (filter (\<lambda>e. \<not> exec_IsTerminal (State e)) (Executions js)) w1))"

text \<open>Modelled from the spec: \<^verbatim>\<open>notifyAskForBid\<close> is not in the sources. It emits AskForBid
  to the nodes and creates an execution in AskedToBid for each.\<close>

definition new_execution :: "string \<Rightarrow> string \<Rightarrow> ExecutionState" where
  "new_execution jobID node =
     \<lparr>EJobID = jobID, ExecutionID = jobID @ ''/'' @ node, NodeID = node,
      State = ExecutionStateAskedToBid, Status = [], UpdateTime = 0\<rparr>"

definition ask_node :: "string \<Rightarrow> string \<Rightarrow> World \<Rightarrow> World" where
  "ask_node jobID node w =
     (case store_CreateExecution jobID (new_execution jobID node) w of
        (Some err, w1) \<Rightarrow> w1
      | (None, w1) \<Rightarrow> publish AskForBid jobID node w1)"

definition spec_notifyAskForBid :: "Job \<Rightarrow> string list \<Rightarrow> World \<Rightarrow> World" where
  "spec_notifyAskForBid job nodes w =
     fold (ask_node (ID job)) nodes (record_call (NotifyAskForBid (ID job) nodes) w)"

text \<open>Modelled from the spec: the bid and result updates are not in the sources. Each
  updates the execution and publishes the event of the same name to its node.\<close>

definition update_and_publish ::
  "ExecutionStateType \<Rightarrow> EventName \<Rightarrow> ExecutionState \<Rightarrow> World \<Rightarrow> World" where
  "update_and_publish newState name e w =
     (case store_UpdateExecution (EJobID e) (ExecutionID e) newState (Status e) w of
        (Some err, w1) \<Rightarrow> w1
      | (None, w1) \<Rightarrow> publish name (EJobID e) (NodeID e) w1)"

definition spec_updateAndNotifyBidAccepted :: "ExecutionState \<Rightarrow> World \<Rightarrow> World" where
  "spec_updateAndNotifyBidAccepted e w =
     update_and_publish ExecutionStateBidAccepted BidAccepted e
       (record_call (UpdateAndNotifyBidAccepted (ExecutionID e)) w)"

definition spec_updateAndNotifyBidRejected :: "ExecutionState \<Rightarrow> World \<Rightarrow> World" where
  "spec_updateAndNotifyBidRejected e w =
     update_and_publish ExecutionStateBidRejected BidRejected e
       (record_call (UpdateAndNotifyBidRejected (ExecutionID e)) w)"

text \<open>Modelled from the spec: \<^verbatim>\<open>verifyResult\<close> is not in the sources. It asks the verifier;
  on a definite partition the succeeded executions become ResultAccepted and the failed
  ones ResultRejected, each published; on InsufficientExecutions or an error nothing is
  updated.\<close>

type_synonym VerifyFn =
  "Job \<Rightarrow> ExecutionState list \<Rightarrow> ExecutionState list \<times> ExecutionState list \<times> error option"

definition spec_verifyResult ::
  "VerifyFn \<Rightarrow> Job \<Rightarrow> ExecutionState list \<Rightarrow> World
     \<Rightarrow> (ExecutionState list \<times> ExecutionState list \<times> error option) \<times> World" where
  "spec_verifyResult verify job proposed w =
     (let w0 = record_call (VerifyResult (ID job) (map ExecutionID proposed)) w
      in case verify job proposed of
           (succeeded, failed, Some err) \<Rightarrow> ((succeeded, failed, Some err), w0)
         | (succeeded, failed, None) \<Rightarrow>
             ((succeeded, failed, None),
              fold (update_and_publish ExecutionStateResultRejected ResultRejected) failed
                (fold (update_and_publish ExecutionStateResultAccepted ResultAccepted) succeeded w0)))"

text \<open>Modelled from the spec: \<^verbatim>\<open>SelectBids\<close> is not in the sources. Once the executions in
  BidReceived are at least \<open>MinBids\<close>, the best \<open>Concurrency\<close> of them (here: the first
  ones) are accepted and the rest rejected; below \<open>MinBids\<close> nothing is decided.\<close>

definition spec_SelectBids ::
  "World \<Rightarrow> Job \<Rightarrow> JobState \<Rightarrow> ExecutionState list \<times> ExecutionState list" where
  "spec_SelectBids w job jobState =
     (let bids = filter (\<lambda>e. State e = ExecutionStateBidReceived) (Executions jobState)
      in if MinBids (JDeal (JSpec job)) \<le> int (length bids)
         then (take (nat (Concurrency (JDeal (JSpec job)))) bids, drop (nat (Concurrency (JDeal (JSpec job)))) bids)
         else ([], []))"

text \<open>Modelled from the spec: \<^verbatim>\<open>CanCompleteJob\<close> is not in the sources. The job completes
  successfully once the Completed executions reach \<open>Concurrency\<close>, and partially when they
  reach \<open>Confidence\<close> only and every execution has ended.\<close>

definition spec_CanCompleteJob :: "World \<Rightarrow> Job \<Rightarrow> JobState \<Rightarrow> bool \<times> JobStateType" where
  "spec_CanCompleteJob w job jobState =
     (let completed = int (length (filter (\<lambda>e. State e = ExecutionStateCompleted) (Executions jobState)))
      in if Concurrency (JDeal (JSpec job)) \<le> completed then (True, JobStateCompletedSuccessfully)
         else if Confidence (JDeal (JSpec job)) \<le> completed
                 \<and> list_all (\<lambda>e. exec_IsTerminal (State e)) (Executions jobState)
         then (True, JobStateCompletedPartially)
         else (False, JobStateNew))"

text \<open>The scheduler over this world. The retry selection, the retry strategy and the
  verifier are policies the deployment chooses.\<close>

definition specScheduler ::
  "(World \<Rightarrow> Job \<Rightarrow> JobState \<Rightarrow> string list \<times> error option)
     \<Rightarrow> (World \<Rightarrow> string \<Rightarrow> bool) \<Rightarrow> VerifyFn \<Rightarrow> World BaseScheduler" where
  "specScheduler selectRetry shouldRetry verify =
     \<lparr>GetJobState = store_GetJobState,
      GetJob = store_GetJob,
      UpdateJobState = store_UpdateJobState,
      SelectNodesForRetry = selectRetry,
      SelectBids = spec_SelectBids,
      CanCompleteJob = spec_CanCompleteJob,
      ShouldRetry = shouldRetry,
      stopJob = spec_stopJob,
      notifyAskForBid = spec_notifyAskForBid,
      updateAndNotifyBidAccepted = spec_updateAndNotifyBidAccepted,
      updateAndNotifyBidRejected = spec_updateAndNotifyBidRejected,
      verifyResult = spec_verifyResult verify\<rparr>"

text \<open>Modelled from the spec: the event handler \<^verbatim>\<open>OnEvent\<close> is not in the sources. It
  applies the local effect of the event on the store and then calls
  \<^verbatim>\<open>TransitionJobState\<close>. The payloads that ResultProposed and Published attach are
  left out.\<close>

datatype InboundEvent =
    InBidReceived string string
  | InBidCancelled string string
  | InComputeError string string string
  | InResultProposed string string
  | InPublished string string
  | InCancelled string

fun event_JobID :: "InboundEvent \<Rightarrow> string" where
  "event_JobID (InBidReceived j n) = j"
| "event_JobID (InBidCancelled j n) = j"
| "event_JobID (InComputeError j n m) = j"
| "event_JobID (InResultProposed j n) = j"
| "event_JobID (InPublished j n) = j"
| "event_JobID (InCancelled j) = j"

definition set_node_execution ::
  "string \<Rightarrow> ExecutionStateType \<Rightarrow> string option \<Rightarrow> ExecutionState \<Rightarrow> ExecutionState" where
  "set_node_execution node newState status e =
     (if NodeID e = node
      then (case status of
              None \<Rightarrow> e\<lparr>State := newState\<rparr>
            | Some m \<Rightarrow> e\<lparr>State := newState, Status := m\<rparr>)
      else e)"

definition node_effect ::
  "string \<Rightarrow> string \<Rightarrow> ExecutionStateType \<Rightarrow> string option \<Rightarrow> World \<Rightarrow> World" where
  "node_effect jobID node newState status w =
     snd (store_modify jobID
            (\<lambda>js. js\<lparr>Executions := map (set_node_execution node newState status) (Executions js)\<rparr>) w)"

definition cancel_effect :: "string \<Rightarrow> World \<Rightarrow> World" where
  "cancel_effect jobID w =
     (case store_UpdateJobState jobID JobStateCancelled w of
        (Some err, w1) \<Rightarrow> w1
      | (None, w1) \<Rightarrow>
          (case map_of (jobStates w) jobID of
             None \<Rightarrow> w1
           | Some js \<Rightarrow> fold (\<lambda>e. publish CancelExecution jobID (NodeID e)) (Executions js) w1))"

fun local_effect :: "InboundEvent \<Rightarrow> World \<Rightarrow> World" where
  "local_effect (InBidReceived j n) w = node_effect j n ExecutionStateBidReceived None w"
| "local_effect (InBidCancelled j n) w = node_effect j n ExecutionStateFailed (Some ''bid withdrawn'') w"
| "local_effect (InComputeError j n m) w = node_effect j n ExecutionStateFailed (Some m) w"
| "local_effect (InResultProposed j n) w = node_effect j n ExecutionStateResultProposed None w"
| "local_effect (InPublished j n) w = node_effect j n ExecutionStateCompleted None w"
| "local_effect (InCancelled j) w = cancel_effect j w"

definition OnEvent :: "nat \<Rightarrow> World BaseScheduler \<Rightarrow> InboundEvent \<Rightarrow> World \<Rightarrow> World option" where
  "OnEvent n s ev w = TransitionJobState n s (event_JobID ev) (local_effect ev w)"

subsection \<open>Example runs\<close>

definition example_job :: "string \<Rightarrow> int \<Rightarrow> int \<Rightarrow> int \<Rightarrow> Job" where
  "example_job jobID concurrency confidence minBids =
     \<lparr>ID = jobID, APIVersion = ''V1beta1'',
      JSpec = \<lparr>Engine = EngineSpec ''noop'' \<lparr>Image = [], Entrypoint = [], EnvironmentVariables = [], WorkingDirectory = []\<rparr>,
                 Verifier = 1, PublisherSpec = ''ipfs'',
                Network = \<lparr>NetworkType = 0, Domains = []\<rparr>, Timeout = 1800,
                Resources = \<lparr>CPU = [], Memory = [], GPU = []\<rparr>,
                Inputs = [], Outputs = [], Annotations = [], NodeSelectors = [],
                JDeal = \<lparr>Concurrency = concurrency, Confidence = confidence, MinBids = minBids\<rparr>\<rparr>\<rparr>"

definition example_execution ::
  "string \<Rightarrow> ExecutionStateType \<Rightarrow> string \<Rightarrow> int \<Rightarrow> ExecutionState" where
  "example_execution node st status t =
     \<lparr>EJobID = ''j1'', ExecutionID = ''j1/'' @ node, NodeID = node, State = st, Status = status,
      UpdateTime = t\<rparr>"

definition example_jobState :: "JobStateType \<Rightarrow> ExecutionState list \<Rightarrow> JobState" where
  "example_jobState st es = \<lparr>JobID = ''j1'', JState = st, JStatus = [], Executions = es\<rparr>"

definition example_world :: "Job \<Rightarrow> JobState \<Rightarrow> World" where
  "example_world job js =
     \<lparr>jobs = [(''j1'', job)], jobStates = [(''j1'', js)], outbox = [], calls = []\<rparr>"

text \<open>Policies for the example runs: a retry selection with nothing to retry, one that
  proposes a node, one that fails; a verifier that waits for more proposals and one that
  fails.\<close>

definition nothing_to_retry :: "World \<Rightarrow> Job \<Rightarrow> JobState \<Rightarrow> string list \<times> error option" where
  "nothing_to_retry w job js = ([], None)"

definition retry_on_B :: "World \<Rightarrow> Job \<Rightarrow> JobState \<Rightarrow> string list \<times> error option" where
  "retry_on_B w job js = ([''B''], None)"

definition selection_fails :: "World \<Rightarrow> Job \<Rightarrow> JobState \<Rightarrow> string list \<times> error option" where
  "selection_fails w job js = ([], Some (ErrOther ''not enough nodes''))"

definition always_retry :: "World \<Rightarrow> string \<Rightarrow> bool" where
  "always_retry w jobID = True"

definition never_retry :: "World \<Rightarrow> string \<Rightarrow> bool" where
  "never_retry w jobID = False"

definition verifier_waits :: VerifyFn where
  "verifier_waits job proposed = ([], [], Some (ErrInsufficientExecutions ''insufficient executions''))"

definition verifier_breaks :: VerifyFn where
  "verifier_breaks job proposed = ([], [], Some (ErrOther ''boom''))"

definition job_j1 :: Job where
  "job_j1 = example_job ''j1'' 2 2 1"

definition proposed_state :: JobState where
  "proposed_state =
     example_jobState JobStateInProgress [example_execution ''A'' ExecutionStateResultProposed [] 5]"

definition proposed_and_bid_state :: JobState where
  "proposed_and_bid_state =
     example_jobState JobStateInProgress
       [example_execution ''A'' ExecutionStateResultProposed [] 5,
        example_execution ''B'' ExecutionStateBidReceived [] 6]"

definition failed_state :: JobState where
  "failed_state =
     example_jobState JobStateInProgress
       [example_execution ''A'' ExecutionStateFailed ''oom'' 5,
        example_execution ''C'' ExecutionStateFailed ''disk full'' 7]"

definition stopped_state :: JobState where
  "stopped_state =
     example_jobState JobStateFailed [example_execution ''A'' ExecutionStateBidAccepted [] 5]"

section \<open>Job construction: \<^verbatim>\<open>pkg/job/factory.go\<close>\<close>

datatype LogLevel = DebugLevel | InfoLevel | WarnLevel | ErrorLevel

record LogEntry =
  Level :: LogLevel
  Msg :: string

text \<open>
  The helpers \<^verbatim>\<open>ConstructDockerJob\<close> calls are defined outside \<^verbatim>\<open>factory.go\<close>; they are
  the fields of the environment below. A function that returns \<^verbatim>\<open>(value, error)\<close> is a sum.
  \<^verbatim>\<open>ConstructDockerJob\<close> itself returns, with an error, an empty job (or \<^verbatim>\<open>nil\<close> after
  \<^verbatim>\<open>AsSpec\<close>); the model returns the error alone, next to what was logged.
\<close>

record FactoryEnv =
  BuildJobOutputs :: "string list \<Rightarrow> error + string list"
  IsSafeAnnotation :: "string \<Rightarrow> bool"
  RegexString :: string
  ParseNodeSelector :: "string \<Rightarrow> error + string list"
  ValidateWorkingDir :: "string \<Rightarrow> error option"
  NewJobWithSaneProductionDefaults :: "error + Job"
  AsSpec :: "DockerEngineSpec \<Rightarrow> error + EngineSpec"

text \<open>The parameters of \<^verbatim>\<open>ConstructDockerJob\<close>, in their order (\<open>a\<close>, \<open>v\<close>, \<open>p\<close> and \<open>image\<close>
  carry the prefix \<open>arg\<close>); \<open>a\<close> is taken as the string \<^verbatim>\<open>a.String()\<close>.\<close>

record DockerJobArgs =
  arg_a :: string
  arg_v :: nat
  arg_p :: string
  cpu :: string
  memory :: string
  gpu :: string
  network :: nat
  domains :: "string list"
  inputs :: "string list"
  outputVolumes :: "string list"
  env :: "string list"
  entrypoint :: "string list"
  arg_image :: string
  concurrency :: int
  confidence :: int
  minBids :: int
  timeout :: real
  annotations :: "string list"
  nodeSelector :: string
  workingDir :: string

fun strings_Join :: "string list \<Rightarrow> string \<Rightarrow> string" where
  "strings_Join [] sep = []"
| "strings_Join [x] sep = x"
| "strings_Join (x # xs) sep = x @ sep @ strings_Join xs sep"

text \<open>The loop over \<open>annotations\<close>; the loop state is \<open>(jobAnnotations, unSafeAnnotations)\<close>.\<close>

fun annotation_loop ::
  "(string \<Rightarrow> bool) \<Rightarrow> string list \<Rightarrow> string list \<times> string list \<Rightarrow> string list \<times> string list" where
  "annotation_loop safe [] acc = acc"
| "annotation_loop safe (x # rest) (jobAnnotations, unSafeAnnotations) =
     (if safe x \<and> x \<noteq> []
      then annotation_loop safe rest (jobAnnotations @ [x], unSafeAnnotations)
      else annotation_loop safe rest (jobAnnotations, unSafeAnnotations @ [x]))"

definition unsafe_labels_msg :: "string \<Rightarrow> string list \<Rightarrow> string" where
  "unsafe_labels_msg regexString unSafeAnnotations =
     ''The following labels are unsafe. Labels must fit the regex '' @ [CHR 0x27] @ ''/''
       @ regexString @ ''/'' @ [CHR 0x27] @ '' (and all emjois): ''
       @ strings_Join unSafeAnnotations '', ''"

definition ConstructDockerJob :: "FactoryEnv \<Rightarrow> DockerJobArgs \<Rightarrow> LogEntry list \<times> (error + Job)" where
  "ConstructDockerJob e args =
     (let jobResources = \<lparr>CPU = cpu args, Memory = memory args, GPU = gpu args\<rparr>
      in case BuildJobOutputs e (outputVolumes args) of
           Inl err \<Rightarrow> ([], Inl err)
         | Inr jobOutputs \<Rightarrow>
      (let (jobAnnotations, unSafeAnnotations) =
             annotation_loop (IsSafeAnnotation e) (annotations args) ([], []);
           logged = (if length unSafeAnnotations > 0
                  then [\<lparr>Level = ErrorLevel,
                         Msg = unsafe_labels_msg (RegexString e) unSafeAnnotations\<rparr>]
                  else [])
       in case ParseNodeSelector e (nodeSelector args) of
            Inl err \<Rightarrow> (logged, Inl err)
          | Inr nodeSelectorRequirements \<Rightarrow>
       (case (if length (workingDir args) > 0 then ValidateWorkingDir e (workingDir args) else None) of
            Some err \<Rightarrow> (logged, Inl err)
          | None \<Rightarrow>
       (case NewJobWithSaneProductionDefaults e of
            Inl err \<Rightarrow> (logged, Inl err)
          | Inr j \<Rightarrow>
       (let dockerEngine0 = \<lparr>Image = arg_image args, Entrypoint = entrypoint args,
                              EnvironmentVariables = env args, WorkingDirectory = []\<rparr>;
            dockerEngine = (if length (workingDir args) > 0
                            then dockerEngine0\<lparr>WorkingDirectory := workingDir args\<rparr>
                            else dockerEngine0)
        in case AsSpec e dockerEngine of
             Inl err \<Rightarrow> (logged, Inl err)
           | Inr engine \<Rightarrow>
               (logged, Inr (j\<lparr>APIVersion := arg_a args,
                             JSpec := \<lparr>Engine = engine, Verifier = arg_v args, PublisherSpec = arg_p args,
                                       Network = \<lparr>NetworkType = network args, Domains = domains args\<rparr>,
                                       Timeout = timeout args, Resources = jobResources,
                                       Inputs = inputs args, Outputs = jobOutputs,
                                       Annotations = jobAnnotations,
                                       NodeSelectors = nodeSelectorRequirements,
                                       JDeal = \<lparr>Concurrency = concurrency args,
                                                Confidence = confidence args,
                                                MinBids = minBids args\<rparr>\<rparr>\<rparr>)))))))"

text \<open>Modelled from the spec: \<^verbatim>\<open>IsSafeAnnotation\<close> and \<^verbatim>\<open>RegexString\<close> are not in the
  sources. The safety regex is a character class (the log message of
  \<^verbatim>\<open>ConstructDockerJob\<close> prints it between slashes); a label fits when each of its
  characters is in the class.\<close>

definition spec_IsSafeAnnotation :: "(char \<Rightarrow> bool) \<Rightarrow> string \<Rightarrow> bool" where
  "spec_IsSafeAnnotation cls x = list_all cls x"

definition alnum :: "char \<Rightarrow> bool" where
  "alnum c = (let n = (of_char c :: nat)
              in (65 \<le> n \<and> n \<le> 90) \<or> (97 \<le> n \<and> n \<le> 122) \<or> (48 \<le> n \<and> n \<le> 57))"

definition example_env :: FactoryEnv where
  "example_env =
     \<lparr>BuildJobOutputs = (\<lambda>vols. Inr vols),
      IsSafeAnnotation = spec_IsSafeAnnotation alnum,
      RegexString = ''A-Za-z0-9'',
      ParseNodeSelector = (\<lambda>sel. Inr []),
      ValidateWorkingDir = (\<lambda>d. None),
      NewJobWithSaneProductionDefaults = Inr (example_job ''j1'' 1 1 1),
      AsSpec = (\<lambda>d. Inr (EngineSpec ''docker'' d))\<rparr>"

definition example_args :: "string list \<Rightarrow> DockerJobArgs" where
  "example_args labels =
     \<lparr>arg_a = ''V1beta1'', arg_v = 1, arg_p = ''ipfs'', cpu = ''1'', memory = ''1Gb'', gpu = [],
      network = 0, domains = [], inputs = [], outputVolumes = [], env = [],
      entrypoint = [''echo''], arg_image = ''ubuntu'', concurrency = 1, confidence = 1, minBids = 1,
      timeout = 1800, annotations = labels, nodeSelector = [], workingDir = []\<rparr>"

section \<open>Public API: the request body cap\<close>

text \<open>The table of \<^verbatim>\<open>TestMaxBodyReader\<close> in \<^verbatim>\<open>pkg/test/publicapi/server_test.go\<close>.\<close>

record testCase =
  tc_name :: string
  tc_size :: int
  tc_expectError :: bool

definition maxSizeOfString :: "int \<Rightarrow> int" where
  "maxSizeOfString MaxBytesToReadInBody = MaxBytesToReadInBody - 163"

definition testCases :: "int \<Rightarrow> testCase list" where
  "testCases MaxBytesToReadInBody =
     [\<lparr>tc_name = ''Max - 1'', tc_size = maxSizeOfString MaxBytesToReadInBody - 1, tc_expectError = False\<rparr>,
      \<lparr>tc_name = ''Max'', tc_size = maxSizeOfString MaxBytesToReadInBody, tc_expectError = False\<rparr>,
      \<lparr>tc_name = ''Max + 1'', tc_size = maxSizeOfString MaxBytesToReadInBody + 1, tc_expectError = True\<rparr>]"

text \<open>The job identifier a test case sends: \<^verbatim>\<open>strings.Repeat("a", tc.size)\<close>.\<close>

definition strings_Repeat :: "char \<Rightarrow> int \<Rightarrow> string" where
  "strings_Repeat c n = replicate (nat n) c"

record Response =
  StatusCode :: nat
  Body :: string

text \<open>Modelled from the spec: the API server is not in the sources. A request for the
  state of a job carries the identifier and 163 bytes of headers; when that exceeds
  \<^verbatim>\<open>MaxBytesToReadInBody\<close> the answer is 413 with \<^verbatim>\<open>http: request body too large\<close>,
  otherwise the state of the job or \<^verbatim>\<open>Job not found\<close>.\<close>

definition request_bytes :: "string \<Rightarrow> int" where
  "request_bytes jobID = int (length jobID) + 163"

definition get_states :: "int \<Rightarrow> (string \<Rightarrow> bool) \<Rightarrow> string \<Rightarrow> Response" where
  "get_states MaxBytesToReadInBody known jobID =
     (if MaxBytesToReadInBody < request_bytes jobID
      then \<lparr>StatusCode = 413, Body = ''http: request body too large''\<rparr>
      else if known jobID then \<lparr>StatusCode = 200, Body = jobID\<rparr>
      else \<lparr>StatusCode = 404, Body = ''Job not found''\<rparr>)"

section \<open>Docker caches: \<^verbatim>\<open>pkg/docker/cache.go\<close>\<close>

text \<open>A \<^verbatim>\<open>time.Duration\<close> is a count of nanoseconds.\<close>

type_synonym Duration = int

definition Hour :: Duration where
  "Hour = 3600000000000"

text \<open>Modelled from the spec: \<^verbatim>\<open>basic.NewCache\<close> is not in the sources; a cache is known by
  the options it was built with (cleanup frequency, maximum cost, time to live).\<close>

record Cache =
  CleanupFrequency :: Duration
  MaxCost :: nat
  TTL :: Duration

definition NewCache :: "Duration \<Rightarrow> nat \<Rightarrow> Duration \<Rightarrow> Cache" where
  "NewCache frequency cost ttl = \<lparr>CleanupFrequency = frequency, MaxCost = cost, TTL = ttl\<rparr>"

text \<open>The package-level variables; before \<^verbatim>\<open>init\<close> runs each holds its zero value.\<close>

record DockerPackage =
  DockerTagCache :: "Cache option"
  DockerManifestCache :: "Cache option"
  DefaultCacheDuration :: Duration
  DefaultTagCacheFrequency :: Duration
  DefaultManifestCacheFrequency :: Duration

definition zero_DockerPackage :: DockerPackage where
  "zero_DockerPackage =
     \<lparr>DockerTagCache = None, DockerManifestCache = None, DefaultCacheDuration = 0,
      DefaultTagCacheFrequency = 0, DefaultManifestCacheFrequency = 0\<rparr>"

definition DefaultCacheSize :: nat where
  "DefaultCacheSize = 1000"

definition tagCacheSizeEnvVar :: string where "tagCacheSizeEnvVar = ''DOCKER_TAG_CACHE_SIZE''"
definition tagCacheDurationEnvVar :: string where "tagCacheDurationEnvVar = ''DOCKER_TAG_CACHE_DURATION''"
definition tagCacheCheckFrequencyEnvVar :: string where "tagCacheCheckFrequencyEnvVar = ''DOCKER_TAG_CACHE_FREQUENCY''"
definition manifestCacheSizeEnvVar :: string where "manifestCacheSizeEnvVar = ''DOCKER_MANIFEST_CACHE_SIZE''"
definition manifestCacheDurationEnvVar :: string where "manifestCacheDurationEnvVar = ''DOCKER_MANIFEST_CACHE_DURATION''"
definition manifestCacheCheckFrequencyEnvVar :: string where "manifestCacheCheckFrequencyEnvVar = ''DOCKER_MANIFEST_CACHE_FREQUENCY''"

text \<open>Modelled from the spec: \<^verbatim>\<open>util.GetEnvAs\<close> is not in the sources. The default applies
  when the variable is unset (or empty, or does not parse); otherwise the parsed value.\<close>

definition GetEnvAs ::
  "(string \<rightharpoonup> string) \<Rightarrow> string \<Rightarrow> 'a \<Rightarrow> (string \<Rightarrow> 'a \<times> error option) \<Rightarrow> 'a" where
  "GetEnvAs environ key def convert =
     (case environ key of
        None \<Rightarrow> def
      | Some val \<Rightarrow>
          if val = [] then def
          else (case convert val of (x, None) \<Rightarrow> x | (x, Some err) \<Rightarrow> def))"

text \<open>\<^verbatim>\<open>init\<close>, over the parsers of the standard library (\<^verbatim>\<open>time.ParseDuration\<close>,
  \<^verbatim>\<open>strconv.ParseUint\<close> in base 10 at 64 bits) and the process environment. The first
  statement declares a new local \<open>DefaultCacheDuration\<close> with \<^verbatim>\<open>:=\<close>: the local is
  \<open>DefaultCacheDuration'\<close> below, and the package variable is not assigned.\<close>

definition init ::
  "(string \<Rightarrow> Duration \<times> error option) \<Rightarrow> (string \<Rightarrow> nat \<times> error option)
     \<Rightarrow> (string \<rightharpoonup> string) \<Rightarrow> DockerPackage \<Rightarrow> DockerPackage" where
  "init ParseDuration ParseUint environ pkg =
     (let DefaultCacheDuration' = fst (ParseDuration ''1h'');
          pkg1 = pkg\<lparr>DefaultTagCacheFrequency := DefaultCacheDuration'\<rparr>;
          pkg2 = pkg1\<lparr>DefaultManifestCacheFrequency := DefaultCacheDuration'\<rparr>;
          tagCacheDuration = GetEnvAs environ tagCacheDurationEnvVar DefaultCacheDuration' ParseDuration;
          tagCacheFrequency =
            GetEnvAs environ tagCacheCheckFrequencyEnvVar (DefaultTagCacheFrequency pkg2) ParseDuration;
          manifestCacheDuration =
            GetEnvAs environ manifestCacheDurationEnvVar DefaultCacheDuration' ParseDuration;
          manifestCacheFrequency =
            GetEnvAs environ manifestCacheCheckFrequencyEnvVar (DefaultManifestCacheFrequency pkg2)
              ParseDuration;
          tagCacheSize = GetEnvAs environ tagCacheSizeEnvVar DefaultCacheSize ParseUint;
          manifestCacheSize = GetEnvAs environ manifestCacheSizeEnvVar DefaultCacheSize ParseUint;
          pkg3 = pkg2\<lparr>DockerTagCache := Some (NewCache tagCacheFrequency tagCacheSize tagCacheDuration)\<rparr>
      in pkg3\<lparr>DockerManifestCache :=
                 Some (NewCache manifestCacheFrequency manifestCacheSize manifestCacheDuration)\<rparr>)"

text \<open>A parser that reads \<^verbatim>\<open>1h\<close> and \<^verbatim>\<open>30s\<close> as \<^verbatim>\<open>time.ParseDuration\<close> does, for the
  example runs.\<close>

definition example_ParseDuration :: "string \<Rightarrow> Duration \<times> error option" where
  "example_ParseDuration x =
     (if x = ''1h'' then (Hour, None)
      else if x = ''30s'' then (30000000000, None)
      else (0, Some (ErrOther ''time: invalid duration'')))"

definition example_ParseUint :: "string \<Rightarrow> nat \<times> error option" where
  "example_ParseUint x =
     (if x = ''1000'' then (1000, None) else (0, Some (ErrOther ''strconv.ParseUint: invalid syntax'')))"

section \<open>Properties of the scheduler\<close>

subsection \<open>Auxiliary facts\<close>

lemma transition_terminal_noop:
  assumes "GetJobState s w jobID = Inr js" and "IsTerminal (JState js)"
  shows "transitionJobStateLockFree (Suc n) s jobID w = Some w"
  using assms by simp

lemma transition_unknown_noop:
  assumes "GetJobState s w jobID = Inl err"
  shows "transitionJobStateLockFree (Suc n) s jobID w = Some w"
  using assms by simp

lemma pending_none_proposed:
  assumes "resultProposed jobState = []"
  shows "checkForPendingResults n s job jobState w = Some w"
  using assms by simp

lemma pending_hard_error:
  assumes "resultProposed jobState \<noteq> []"
    and "verifyResult s job (resultProposed jobState) w = ((succeeded, failed, Some e), w')"
    and "\<not> errors_As_ErrInsufficientExecutions (Some e)"
  shows "checkForPendingResults n s job jobState w
           = Some (stopJob s (ID job) (failed_to_verify_msg job e) False w')"
  using assms by (cases "resultProposed jobState") simp_all

lemma pending_insufficient:
  assumes "resultProposed jobState \<noteq> []"
    and "verifyResult s job (resultProposed jobState) w = ((succeeded, failed, err), w')"
    and "errors_As_ErrInsufficientExecutions err"
  shows "checkForPendingResults n s job jobState w = Some w'"
  using assms by (cases "resultProposed jobState") simp_all

lemma failed_loop_errMsg:
  assumes "errMsg = multierr_Error finalErr"
  shows "snd (snd (failed_loop es (lastFailed, finalErr, errMsg)))
           = multierr_Error (fst (snd (failed_loop es (lastFailed, finalErr, errMsg))))"
  using assms by (induction es arbitrary: lastFailed finalErr errMsg) (simp_all add: Let_def)

lemma failed_errMsg_joined:
  "failed_errMsg jobState
     = multierr_Error (fst (snd (failed_loop (Executions jobState) (zero_ExecutionState, [], []))))"
  unfolding failed_errMsg_def by (rule failed_loop_errMsg) simp

lemma store_modify_terminal:
  assumes "map_of (jobStates w) jobID = Some js" and "IsTerminal (JState js)"
  shows "store_modify jobID f w = (Some (ErrOther ''JobTerminated''), w)"
  using assms by (simp add: store_modify_def)

lemma local_effect_terminal:
  assumes "map_of (jobStates w) (event_JobID ev) = Some js" and "IsTerminal (JState js)"
  shows "local_effect ev w = w"
  using assms
  by (cases ev)
     (simp_all add: node_effect_def cancel_effect_def store_UpdateJobState_def store_modify_terminal)

subsection \<open>Hard verifier errors\<close>

text \<open>
  Claim C1, as the code has it. When the verifier returns an error that is not
  InsufficientExecutions, the pending-results check stops the job: it calls \<open>stopJob\<close>
  with the message \<^verbatim>\<open>failed to verify job <id>: <error>\<close> and with \<open>permanent = false\<close>,
  on the world the verifier call left, and the invocation of \<open>TransitionJobState\<close> goes on
  to the completion check from there.
\<close>

theorem hard_verifier_error_stops_job:
  assumes "GetJobState s w jobID = Inr jobState" and "\<not> IsTerminal (JState jobState)"
    and "GetJob s w jobID = Inr job"
    and "resultProposed jobState \<noteq> []"
    and "verifyResult s job (resultProposed jobState)
           (checkForPendingBids s job jobState (checkForFailedExecutions s job jobState w))
         = ((succeeded, failed, Some e), w')"
    and "\<not> errors_As_ErrInsufficientExecutions (Some e)"
  shows "checkForPendingResults n s job jobState
           (checkForPendingBids s job jobState (checkForFailedExecutions s job jobState w))
         = Some (stopJob s (ID job) (failed_to_verify_msg job e) False w')
       \<and> TransitionJobState (Suc n) s jobID w
         = Some (checkForCompletedExecutions s job jobState
                   (stopJob s (ID job) (failed_to_verify_msg job e) False w'))"
  using assms pending_hard_error[OF assms(4) assms(5) assms(6), of n]
  by (simp add: TransitionJobState_def Let_def del: checkForPendingResults.simps)

theorem hard_verifier_error_stops_job_witness:
  "TransitionJobState 1 (specScheduler nothing_to_retry always_retry verifier_breaks) ''j1''
     (example_world job_j1 proposed_state)
   = Some (checkForCompletedExecutions (specScheduler nothing_to_retry always_retry verifier_breaks)
             job_j1 proposed_state
             (stopJob (specScheduler nothing_to_retry always_retry verifier_breaks) ''j1''
                ''failed to verify job j1: boom'' False
                (record_call (VerifyResult ''j1'' [''j1/A'']) (example_world job_j1 proposed_state))))"
proof -
  let ?s = "specScheduler nothing_to_retry always_retry verifier_breaks"
  let ?w = "example_world job_j1 proposed_state"
  have a: "GetJobState ?s ?w ''j1'' = Inr proposed_state"
    by code_simp
  have b: "\<not> IsTerminal (JState proposed_state)"
    by code_simp
  have c: "GetJob ?s ?w ''j1'' = Inr job_j1"
    by code_simp
  have d: "resultProposed proposed_state \<noteq> []"
    by code_simp
  have e: "verifyResult ?s job_j1 (resultProposed proposed_state)
             (checkForPendingBids ?s job_j1 proposed_state
                (checkForFailedExecutions ?s job_j1 proposed_state ?w))
           = (([], [], Some (ErrOther ''boom'')), record_call (VerifyResult ''j1'' [''j1/A'']) ?w)"
    by code_simp
  have f: "\<not> errors_As_ErrInsufficientExecutions (Some (ErrOther ''boom''))"
    by simp
  have g: "ID job_j1 = ''j1''" "failed_to_verify_msg job_j1 (ErrOther ''boom'') = ''failed to verify job j1: boom''"
    by code_simp+
  from hard_verifier_error_stops_job[OF a b c d e f, of 0] g show ?thesis
    by simp
qed

text \<open>The job of the example has one proposed result and a verifier that fails; the only
  \<open>stopJob\<close> call of the run carries \<open>permanent = false\<close>.\<close>

theorem hard_verifier_error_permanent_counterexample:
  "map_option calls
     (TransitionJobState 1 (specScheduler nothing_to_retry always_retry verifier_breaks) ''j1''
        (example_world job_j1 proposed_state))
   = Some [VerifyResult ''j1'' [''j1/A''], StopJob ''j1'' ''failed to verify job j1: boom'' False]"
  by code_simp

subsection \<open>Terminal jobs\<close>

text \<open>
  Claim C2. For a job whose JobState is terminal, an invocation of \<open>TransitionJobState\<close>
  returns the world as it was, and so does every inbound event for that job: its local
  effect is rejected by the store and the reconciliation that follows does nothing.
\<close>

theorem terminal_job_unchanged:
  assumes "GetJobState s w jobID = Inr js" and "IsTerminal (JState js)"
    and "map_of (jobStates w) jobID = Some js"
  shows "TransitionJobState (Suc n) s jobID w = Some w
       \<and> (\<forall>ev. event_JobID ev = jobID \<longrightarrow> OnEvent (Suc n) s ev w = Some w)"
proof -
  have t: "TransitionJobState (Suc n) s jobID w = Some w"
    unfolding TransitionJobState_def using assms(1,2) by (rule transition_terminal_noop)
  have "OnEvent (Suc n) s ev w = Some w" if "event_JobID ev = jobID" for ev
    using that t local_effect_terminal[of w ev js] assms(2,3) by (simp add: OnEvent_def)
  with t show ?thesis by blast
qed

theorem terminal_job_unchanged_witness:
  "TransitionJobState 1 (specScheduler retry_on_B always_retry verifier_breaks) ''j1''
     (example_world job_j1 stopped_state)
   = Some (example_world job_j1 stopped_state)
   \<and> OnEvent 1 (specScheduler retry_on_B always_retry verifier_breaks) (InPublished ''j1'' ''A'')
       (example_world job_j1 stopped_state)
     = Some (example_world job_j1 stopped_state)"
proof -
  let ?s = "specScheduler retry_on_B always_retry verifier_breaks"
  let ?w = "example_world job_j1 stopped_state"
  have a: "GetJobState ?s ?w ''j1'' = Inr stopped_state"
    by (simp add: specScheduler_def store_GetJobState_def example_world_def)
  have b: "IsTerminal (JState stopped_state)"
    by (simp add: stopped_state_def example_jobState_def)
  have c: "map_of (jobStates ?w) ''j1'' = Some stopped_state"
    by (simp add: example_world_def)
  from terminal_job_unchanged[OF a b c, of 0] show ?thesis by simp
qed

subsection \<open>The failed-execution check\<close>

text \<open>
  Claim C3, as the code has it. The check stops the job, with the aggregated reasons of
  the failed executions and \<open>permanent = false\<close>, when the retry selection returns an
  error (whatever the node list, also an empty one) or when it returns nodes and
  \<open>ShouldRetry\<close> is false. Otherwise, when the selection returns nodes, it asks exactly
  those nodes for bids; otherwise it does nothing.
\<close>

theorem failed_executions_check_cases:
  assumes "SelectNodesForRetry s w job jobState = (nodesToRetry, err)"
  shows "checkForFailedExecutions s job jobState w =
           (if err \<noteq> None then stopJob s (ID job) (failed_errMsg jobState) False w
            else if nodesToRetry \<noteq> [] \<and> \<not> ShouldRetry s w (ID job)
            then stopJob s (ID job) (failed_errMsg jobState) False w
            else if nodesToRetry \<noteq> [] then notifyAskForBid s job nodesToRetry w
            else w)"
  using assms by (simp add: checkForFailedExecutions_def)

theorem failed_executions_check_cases_witness:
  "calls (checkForFailedExecutions (specScheduler retry_on_B never_retry verifier_waits)
        job_j1 failed_state (example_world job_j1 failed_state))
     = [StopJob ''j1'' ''node A failed due to: oom; node C failed due to: disk full'' False]
   \<and> outbox (checkForFailedExecutions (specScheduler retry_on_B always_retry verifier_waits)
        job_j1 failed_state (example_world job_j1 failed_state))
     = [\<lparr>EvName = AskForBid, EvJobID = ''j1'', EvTargetNodeID = ''B''\<rparr>]"
proof -
  let ?w = "example_world job_j1 failed_state"
  let ?s = "specScheduler retry_on_B never_retry verifier_waits"
  let ?s' = "specScheduler retry_on_B always_retry verifier_waits"
  have a: "SelectNodesForRetry ?s ?w job_j1 failed_state = ([''B''], None)"
    by (simp add: specScheduler_def retry_on_B_def)
  have b: "SelectNodesForRetry ?s' ?w job_j1 failed_state = ([''B''], None)"
    by (simp add: specScheduler_def retry_on_B_def)
  have c: "calls (stopJob ?s (ID job_j1) (failed_errMsg failed_state) False ?w)
     = [StopJob ''j1'' ''node A failed due to: oom; node C failed due to: disk full'' False]"
    by code_simp
  have d: "outbox (notifyAskForBid ?s' job_j1 [''B''] ?w)
     = [\<lparr>EvName = AskForBid, EvJobID = ''j1'', EvTargetNodeID = ''B''\<rparr>]"
    by code_simp
  have e: "\<not> ShouldRetry ?s ?w (ID job_j1)" "ShouldRetry ?s' ?w (ID job_j1)"
    by (simp_all add: specScheduler_def never_retry_def always_retry_def)
  show ?thesis
    using failed_executions_check_cases[OF a] failed_executions_check_cases[OF b] c d e by simp
qed

text \<open>The retry selection fails and proposes no node; retrying is permitted. The job is
  stopped all the same.\<close>

theorem selector_error_stops_job_counterexample:
  "SelectNodesForRetry (specScheduler selection_fails always_retry verifier_waits)
       (example_world job_j1 failed_state) job_j1 failed_state
     = ([], Some (ErrOther ''not enough nodes''))
   \<and> ShouldRetry (specScheduler selection_fails always_retry verifier_waits)
       (example_world job_j1 failed_state) (ID job_j1)
   \<and> calls (checkForFailedExecutions (specScheduler selection_fails always_retry verifier_waits)
        job_j1 failed_state (example_world job_j1 failed_state))
     = [StopJob ''j1'' ''node A failed due to: oom; node C failed due to: disk full'' False]"
  by code_simp

subsection \<open>InsufficientExecutions\<close>

text \<open>
  Claim C4, as the code has it. When a job has a proposed result and the verifier reports
  InsufficientExecutions, the pending-results check returns right after the verifier
  call: it neither stops the job nor invokes the transition again, so
  InsufficientExecutions is not treated as a hard error. The other checks of the same
  invocation still run: the failed-execution and bid checks before it, the completion
  check after it.
\<close>

theorem insufficient_executions_waits:
  assumes "GetJobState s w jobID = Inr jobState" and "\<not> IsTerminal (JState jobState)"
    and "GetJob s w jobID = Inr job"
    and "resultProposed jobState \<noteq> []"
    and "verifyResult s job (resultProposed jobState)
           (checkForPendingBids s job jobState (checkForFailedExecutions s job jobState w))
         = ((succeeded, failed, err), w')"
    and "errors_As_ErrInsufficientExecutions err"
  shows "checkForPendingResults n s job jobState
           (checkForPendingBids s job jobState (checkForFailedExecutions s job jobState w))
         = Some w'
       \<and> TransitionJobState (Suc n) s jobID w
         = Some (checkForCompletedExecutions s job jobState w')"
  using assms pending_insufficient[OF assms(4) assms(5) assms(6), of n]
  by (simp add: TransitionJobState_def Let_def del: checkForPendingResults.simps)

theorem insufficient_executions_waits_witness:
  "TransitionJobState 1 (specScheduler nothing_to_retry always_retry verifier_waits) ''j1''
     (example_world job_j1 proposed_state)
   = Some (record_call (VerifyResult ''j1'' [''j1/A'']) (example_world job_j1 proposed_state))"
proof -
  let ?s = "specScheduler nothing_to_retry always_retry verifier_waits"
  let ?w = "example_world job_j1 proposed_state"
  let ?w' = "record_call (VerifyResult ''j1'' [''j1/A'']) ?w"
  have a: "GetJobState ?s ?w ''j1'' = Inr proposed_state"
    by code_simp
  have b: "\<not> IsTerminal (JState proposed_state)"
    by code_simp
  have c: "GetJob ?s ?w ''j1'' = Inr job_j1"
    by code_simp
  have d: "resultProposed proposed_state \<noteq> []"
    by code_simp
  have e: "verifyResult ?s job_j1 (resultProposed proposed_state)
             (checkForPendingBids ?s job_j1 proposed_state
                (checkForFailedExecutions ?s job_j1 proposed_state ?w))
           = (([], [], Some (ErrInsufficientExecutions ''insufficient executions'')), ?w')"
    by code_simp
  have f: "errors_As_ErrInsufficientExecutions (Some (ErrInsufficientExecutions ''insufficient executions''))"
    by simp
  have g: "checkForCompletedExecutions ?s job_j1 proposed_state ?w' = ?w'"
    by code_simp
  from insufficient_executions_waits[OF a b c d e f, of 0] g show ?thesis
    by simp
qed

text \<open>A job with one proposed result and one bid received; the verifier waits for more
  proposals. The same invocation accepts the bid: the execution on node B changes state.\<close>

theorem insufficient_executions_state_change_counterexample:
  "resultProposed proposed_and_bid_state \<noteq> []
   \<and> errors_As_ErrInsufficientExecutions
       (snd (snd (verifier_waits job_j1 (resultProposed proposed_and_bid_state))))
   \<and> map_option (\<lambda>w. map_of (jobStates w) ''j1'')
     (TransitionJobState 1 (specScheduler nothing_to_retry always_retry verifier_waits) ''j1''
        (example_world job_j1 proposed_and_bid_state))
   = Some (Some (example_jobState JobStateInProgress
       [example_execution ''A'' ExecutionStateResultProposed [] 5,
        example_execution ''B'' ExecutionStateBidAccepted [] 6]))
   \<and> map_of (jobStates (example_world job_j1 proposed_and_bid_state)) ''j1''
     = Some (example_jobState JobStateInProgress
       [example_execution ''A'' ExecutionStateResultProposed [] 5,
        example_execution ''B'' ExecutionStateBidReceived [] 6])"
  by code_simp

section \<open>Properties of job construction\<close>

lemma annotation_loop_filter:
  "annotation_loop safe xs (ok, bad)
     = (ok @ filter (\<lambda>x. safe x \<and> x \<noteq> []) xs, bad @ filter (\<lambda>x. \<not> (safe x \<and> x \<noteq> [])) xs)"
  by (induction xs arbitrary: ok bad) auto

text \<open>
  Claim C6, as the code has it. When \<open>ConstructDockerJob\<close> returns a job, its
  \<open>Spec.Annotations\<close> are exactly the annotations of the input that pass
  \<open>IsSafeAnnotation\<close> and are not the empty string, in their order. The others (those
  that fail the regex, and empty ones) are stripped and, when there is at least one, listed
  in a single log entry at error level.
\<close>

theorem admitted_annotations:
  assumes "ConstructDockerJob e args = (logged, Inr j)"
  shows "Annotations (JSpec j)
           = filter (\<lambda>x. IsSafeAnnotation e x \<and> x \<noteq> []) (annotations args)
       \<and> logged
           = (let unSafeAnnotations =
                    filter (\<lambda>x. \<not> (IsSafeAnnotation e x \<and> x \<noteq> [])) (annotations args)
              in if unSafeAnnotations = [] then []
                 else [\<lparr>Level = ErrorLevel,
                        Msg = unsafe_labels_msg (RegexString e) unSafeAnnotations\<rparr>])"
  using assms
  by (auto simp: ConstructDockerJob_def annotation_loop_filter Let_def
           split: sum.splits option.splits if_splits)

theorem admitted_annotations_witness:
  "map_sum id (\<lambda>j. Annotations (JSpec j))
     (snd (ConstructDockerJob example_env (example_args [''gpu'', [], ''a b''])))
   = Inr [''gpu'']
   \<and> map Level (fst (ConstructDockerJob example_env (example_args [''gpu'', [], ''a b'']))) = [ErrorLevel]"
proof -
  let ?r = "ConstructDockerJob example_env (example_args [''gpu'', [], ''a b''])"
  have "snd ?r = Inr (projr (snd ?r))"
    by code_simp
  then have a: "?r = (fst ?r, Inr (projr (snd ?r)))"
    by (simp add: prod_eq_iff)
  have b: "filter (\<lambda>x. IsSafeAnnotation example_env x \<and> x \<noteq> [])
             (annotations (example_args [''gpu'', [], ''a b''])) = [''gpu'']"
    by code_simp
  have c: "filter (\<lambda>x. \<not> (IsSafeAnnotation example_env x \<and> x \<noteq> []))
             (annotations (example_args [''gpu'', [], ''a b''])) = [[], ''a b'']"
    by code_simp
  from admitted_annotations[OF a] b c
  have "Annotations (JSpec (projr (snd ?r))) = [''gpu'']" and "map Level (fst ?r) = [ErrorLevel]"
    by (simp_all add: Let_def)
  moreover have "map_sum id (\<lambda>j. Annotations (JSpec j)) (snd ?r)
                   = Inr (Annotations (JSpec (projr (snd ?r))))"
    by (subst \<open>snd ?r = Inr (projr (snd ?r))\<close>) simp
  ultimately show ?thesis by simp
qed

text \<open>The empty annotation fits the character class and is stripped all the same: the
  admitted list is not the list of the safe annotations.\<close>

theorem empty_annotation_counterexample:
  "map_sum id (\<lambda>j. Annotations (JSpec j))
     (snd (ConstructDockerJob example_env (example_args [''gpu'', [], ''a b''])))
   = Inr [''gpu'']
   \<and> filter (IsSafeAnnotation example_env) (annotations (example_args [''gpu'', [], ''a b'']))
     = [''gpu'', []]"
  by code_simp

section \<open>Properties of the request body cap\<close>

text \<open>
  Claim C7. With the cap at 500 bytes, a request for the state of a job whose identifier
  is longer than 337 bytes is answered 413 with \<^verbatim>\<open>http: request body too large\<close>; one of
  at most 336 bytes is not answered 413: it succeeds or the answer is \<^verbatim>\<open>Job not found\<close>.
  The three cases of \<open>TestMaxBodyReader\<close> expect an error exactly where the answer is 413.
\<close>

theorem body_cap_413:
  "(337 < length jobID \<longrightarrow>
      get_states 500 known jobID = \<lparr>StatusCode = 413, Body = ''http: request body too large''\<rparr>)
   \<and> (length jobID \<le> 336 \<longrightarrow>
      StatusCode (get_states 500 known jobID) \<noteq> 413
      \<and> (get_states 500 known jobID = \<lparr>StatusCode = 200, Body = jobID\<rparr>
         \<or> get_states 500 known jobID = \<lparr>StatusCode = 404, Body = ''Job not found''\<rparr>))
   \<and> (\<forall>tc \<in> set (testCases 500).
        tc_expectError tc
          = (StatusCode (get_states 500 known (strings_Repeat CHR ''a'' (tc_size tc))) = 413))"
  by (simp add: get_states_def request_bytes_def testCases_def maxSizeOfString_def
        strings_Repeat_def)

theorem body_cap_413_witness:
  "get_states 500 (\<lambda>x. False) (strings_Repeat CHR ''a'' 338)
     = \<lparr>StatusCode = 413, Body = ''http: request body too large''\<rparr>
   \<and> get_states 500 (\<lambda>x. False) (strings_Repeat CHR ''a'' 336)
     = \<lparr>StatusCode = 404, Body = ''Job not found''\<rparr>"
proof -
  have a: "337 < length (strings_Repeat CHR ''a'' 338)"
    by (simp add: strings_Repeat_def)
  have b: "length (strings_Repeat CHR ''a'' 336) \<le> 336"
    by (simp add: strings_Repeat_def)
  have c: "get_states 500 (\<lambda>x. False) (strings_Repeat CHR ''a'' 336)
             \<noteq> \<lparr>StatusCode = 200, Body = strings_Repeat CHR ''a'' 336\<rparr>"
    by (simp add: get_states_def request_bytes_def strings_Repeat_def)
  from body_cap_413[of "strings_Repeat CHR ''a'' 338" "\<lambda>x. False"] a
       body_cap_413[of "strings_Repeat CHR ''a'' 336" "\<lambda>x. False"] b c
  show ?thesis by blast
qed

section \<open>Properties of the docker caches\<close>

text \<open>
  Claim C10. After \<open>init\<close>, run on the zero values of the package variables, the variable
  \<open>DefaultCacheDuration\<close> still holds the zero duration, since \<open>init\<close> assigns a local of
  the same name; \<open>DefaultTagCacheFrequency\<close> and \<open>DefaultManifestCacheFrequency\<close> hold one
  hour, and with the duration variables of the environment unset both caches are built
  with a time to live of one hour.
\<close>

theorem init_shadows_DefaultCacheDuration:
  assumes "ParseDuration ''1h'' = (Hour, None)"
    and "environ tagCacheDurationEnvVar = None"
    and "environ manifestCacheDurationEnvVar = None"
  shows "DefaultCacheDuration (init ParseDuration ParseUint environ zero_DockerPackage) = 0
       \<and> DefaultCacheDuration (init ParseDuration ParseUint environ zero_DockerPackage) \<noteq> Hour
       \<and> DefaultTagCacheFrequency (init ParseDuration ParseUint environ zero_DockerPackage) = Hour
       \<and> DefaultManifestCacheFrequency (init ParseDuration ParseUint environ zero_DockerPackage) = Hour
       \<and> map_option TTL (DockerTagCache (init ParseDuration ParseUint environ zero_DockerPackage))
           = Some Hour
       \<and> map_option TTL (DockerManifestCache (init ParseDuration ParseUint environ zero_DockerPackage))
           = Some Hour"
  using assms
  by (simp add: init_def zero_DockerPackage_def GetEnvAs_def NewCache_def Let_def Hour_def)

theorem init_shadows_DefaultCacheDuration_witness:
  "init example_ParseDuration example_ParseUint Map.empty zero_DockerPackage
   = \<lparr>DockerTagCache = Some \<lparr>CleanupFrequency = Hour, MaxCost = 1000, TTL = Hour\<rparr>,
      DockerManifestCache = Some \<lparr>CleanupFrequency = Hour, MaxCost = 1000, TTL = Hour\<rparr>,
      DefaultCacheDuration = 0, DefaultTagCacheFrequency = Hour,
      DefaultManifestCacheFrequency = Hour\<rparr>"
proof -
  let ?pkg = "init example_ParseDuration example_ParseUint Map.empty zero_DockerPackage"
  have a: "example_ParseDuration ''1h'' = (Hour, None)"
    by (simp add: example_ParseDuration_def)
  have b: "?pkg
     = \<lparr>DockerTagCache = Some \<lparr>CleanupFrequency = Hour, MaxCost = 1000, TTL = Hour\<rparr>,
        DockerManifestCache = Some \<lparr>CleanupFrequency = Hour, MaxCost = 1000, TTL = Hour\<rparr>,
        DefaultCacheDuration = DefaultCacheDuration ?pkg,
        DefaultTagCacheFrequency = Hour, DefaultManifestCacheFrequency = Hour\<rparr>"
    by (simp add: init_def zero_DockerPackage_def GetEnvAs_def NewCache_def Let_def a
          DefaultCacheSize_def)
  from init_shadows_DefaultCacheDuration[where ParseDuration = example_ParseDuration
        and environ = Map.empty and ParseUint = example_ParseUint] a
  have "DefaultCacheDuration ?pkg = 0"
    by simp
  with b show ?thesis by simp
qed

end
